theory Spec2Isabelle
  imports Main
begin

section \<open>The web implementation of ExpoPermissions\<close>

text \<open>
  The module \<^verbatim>\<open>packages/expo-permissions/src/ExpoPermissions.web.ts\<close> resolves a
  permission type against the browser: \<^verbatim>\<open>navigator.permissions\<close>,
  \<^verbatim>\<open>getUserMedia\<close>, \<^verbatim>\<open>navigator.geolocation\<close> and \<^verbatim>\<open>Notification\<close>.
  An \<^verbatim>\<open>async\<close> function is modelled by the way its promise settles: \<open>Inr v\<close> when it
  resolves with \<open>v\<close>, \<open>Inl e\<close> when it rejects with (or the function throws) \<open>e\<close>.
  The browser is an argument of every function: a record that says, for each API the
  module touches, whether it exists and how a call to it settles. A promise that
  never settles and a host that answers the same call differently at two moments are
  outside the model.
\<close>

subsection \<open>Values\<close>

text \<open>
  What a host API rejects with, what the error callback of the geolocation API
  receives and what \<^verbatim>\<open>_getUserMedia\<close> throws by itself: an object of which the module
  reads \<^verbatim>\<open>message\<close> and \<^verbatim>\<open>code\<close>.
\<close>

record js_error =
  name :: string
  message :: string
  code :: int

type_synonym 'a promise = "js_error + 'a"

text \<open>
  The enum \<^verbatim>\<open>PermissionStatus\<close> is declared in \<^verbatim>\<open>Permissions.types\<close>, a module
  that is not embedded here. Its three members are strings at run time; their values are a
  parameter \<open>ps\<close> of every function that mentions the enum.
\<close>

record PermissionStatus =
  GRANTED :: string
  DENIED :: string
  UNDETERMINED :: string

record PermissionInfo =
  status :: string
  expires :: string

type_synonym PermissionMap = "string \<rightharpoonup> PermissionInfo"

record MediaStreamConstraints =
  audio :: bool
  video :: bool

record MediaDeviceInfo =
  kind :: string
  label :: string

subsection \<open>The host\<close>

text \<open>
  An optional property is an \<open>option\<close>: \<open>None\<close> when the property is absent
  (\<^verbatim>\<open>undefined\<close>). A method is given by how a call to it settles. The state string of
  \<^verbatim>\<open>navigator.permissions.query\<close> depends on the queried name, the outcome of
  \<^verbatim>\<open>getUserMedia\<close> on the constraints.
\<close>

record Permissions =
  query :: "(string \<Rightarrow> string promise) option"

record MediaDevices =
  mediaDevices_getUserMedia :: "(MediaStreamConstraints \<Rightarrow> unit promise) option"
  mediaDevices_enumerateDevices :: "(MediaDeviceInfo list option) promise option"

record Geolocation =
  getCurrentPosition :: "js_error + unit"
    \<comment> \<open>\<open>Inr ()\<close>: the success callback is called; \<open>Inl e\<close>: the error callback, with \<open>e\<close>\<close>

record Navigator =
  permissions :: "Permissions option"
  mediaDevices :: "MediaDevices option"
  getUserMedia :: "(MediaStreamConstraints \<Rightarrow> unit promise) option"
  webkitGetUserMedia :: "(MediaStreamConstraints \<Rightarrow> unit promise) option"
  mozGetUserMedia :: "(MediaStreamConstraints \<Rightarrow> unit promise) option"
  geolocation :: "Geolocation option"

record NotificationAPI =
  Notification_permission :: "string option"
  requestPermission :: "(string option) promise option"

record MediaStreamTrackAPI =
  getSources :: "(MediaDeviceInfo list option) promise option"
    \<comment> \<open>\<open>Some\<close> when \<^verbatim>\<open>typeof MediaStreamTrack.getSources === 'function'\<close>\<close>

record Window =
  Notification :: "NotificationAPI option"
  MediaStreamTrack :: "MediaStreamTrackAPI option"

record host =
  navigator :: Navigator
  window :: Window

text \<open>
  Reading a property of \<^verbatim>\<open>undefined\<close> throws a \<^verbatim>\<open>TypeError\<close>; the wording of its
  message is the engine's, and nothing below depends on it.
\<close>

definition TypeError :: "string \<Rightarrow> js_error" where
  "TypeError msg = \<lparr>name = ''TypeError'', message = msg, code = 0\<rparr>"

subsection \<open>Requests\<close>

text \<open>
  \<^verbatim>\<open>_getUserMedia\<close>: the modern API when it is there, else the first legacy function
  that is there, else a function that throws \<^verbatim>\<open>Permission unimplemented\<close>. The legacy
  function is called inside the executor of a new promise, so what it throws rejects
  the promise.
\<close>

definition p_getUserMedia :: "host \<Rightarrow> MediaStreamConstraints \<Rightarrow> unit promise" where
  "p_getUserMedia h constraints =
     (case (case mediaDevices (navigator h) of
              None \<Rightarrow> None
            | Some md \<Rightarrow> mediaDevices_getUserMedia md) of
        Some modern \<Rightarrow> modern constraints
      | None \<Rightarrow>
          (case getUserMedia (navigator h) of
             Some legacy \<Rightarrow> legacy constraints
           | None \<Rightarrow>
               (case webkitGetUserMedia (navigator h) of
                  Some legacy \<Rightarrow> legacy constraints
                | None \<Rightarrow>
                    (case mozGetUserMedia (navigator h) of
                       Some legacy \<Rightarrow> legacy constraints
                     | None \<Rightarrow>
                         Inl \<lparr>name = ''NotAllowedError'',
                              message = ''Permission unimplemented'',
                              code = 0\<rparr>))))"

definition askForMediaPermissionAsync ::
  "PermissionStatus \<Rightarrow> host \<Rightarrow> MediaStreamConstraints \<Rightarrow> PermissionInfo promise" where
  "askForMediaPermissionAsync ps h options =
     (case p_getUserMedia h options of
        Inr stream \<Rightarrow> Inr \<lparr>status = GRANTED ps, expires = ''never''\<rparr>
      | Inl e \<Rightarrow>
          if message e = ''Permission dismissed''
          then Inr \<lparr>status = UNDETERMINED ps, expires = ''never''\<rparr>
          else Inr \<lparr>status = DENIED ps, expires = ''never''\<rparr>)"

definition askForMicrophonePermissionAsync ::
  "PermissionStatus \<Rightarrow> host \<Rightarrow> PermissionInfo promise" where
  "askForMicrophonePermissionAsync ps h =
     askForMediaPermissionAsync ps h \<lparr>audio = True, video = False\<rparr>"

definition askForCameraPermissionAsync ::
  "PermissionStatus \<Rightarrow> host \<Rightarrow> PermissionInfo promise" where
  "askForCameraPermissionAsync ps h =
     askForMediaPermissionAsync ps h \<lparr>audio = False, video = True\<rparr>"

text \<open>
  \<^verbatim>\<open>askForLocationPermissionAsync\<close> reads \<^verbatim>\<open>navigator.geolocation.getCurrentPosition\<close>
  inside the executor of its promise: without \<^verbatim>\<open>navigator.geolocation\<close> the read
  throws and the promise rejects.
\<close>

definition askForLocationPermissionAsync ::
  "PermissionStatus \<Rightarrow> host \<Rightarrow> PermissionInfo promise" where
  "askForLocationPermissionAsync ps h =
     (case geolocation (navigator h) of
        None \<Rightarrow> Inl (TypeError ''navigator.geolocation is undefined'')
      | Some geo \<Rightarrow>
          (case getCurrentPosition geo of
             Inr position \<Rightarrow> Inr \<lparr>status = GRANTED ps, expires = ''never''\<rparr>
           | Inl e \<Rightarrow>
               if code e = 1
               then Inr \<lparr>status = DENIED ps, expires = ''never''\<rparr>
               else Inr \<lparr>status = UNDETERMINED ps, expires = ''never''\<rparr>))"

subsection \<open>Queries\<close>

definition getPermissionWithQueryAsync ::
  "PermissionStatus \<Rightarrow> host \<Rightarrow> string \<Rightarrow> (string option) promise" where
  "getPermissionWithQueryAsync ps h nm =
     (case permissions (navigator h) of
        None \<Rightarrow> Inr None
      | Some p \<Rightarrow>
          (case query p of
             None \<Rightarrow> Inr None
           | Some q \<Rightarrow>
               (case q nm of
                  Inl e \<Rightarrow> Inl e
                | Inr state \<Rightarrow>
                    if state = ''prompt'' then Inr (Some (UNDETERMINED ps))
                    else if state = ''granted'' then Inr (Some (GRANTED ps))
                    else if state = ''denied'' then Inr (Some (DENIED ps))
                    else Inr None)))"

definition enumerateDevices :: "host \<Rightarrow> (MediaDeviceInfo list option) promise" where
  "enumerateDevices h =
     (case (case mediaDevices (navigator h) of
              None \<Rightarrow> None
            | Some md \<Rightarrow> mediaDevices_enumerateDevices md) of
        Some modern \<Rightarrow> modern
      | None \<Rightarrow>
          (case (case MediaStreamTrack (window h) of
                   None \<Rightarrow> None
                 | Some mst \<Rightarrow> getSources mst) of
             Some legacy \<Rightarrow> legacy
           | None \<Rightarrow> Inr None))"

definition getMediaMaybeGrantedAsync :: "host \<Rightarrow> string \<Rightarrow> bool promise" where
  "getMediaMaybeGrantedAsync h targetKind =
     (case enumerateDevices h of
        Inl e \<Rightarrow> Inl e
      | Inr None \<Rightarrow> Inr False
      | Inr (Some devices) \<Rightarrow>
          Inr (list_ex (\<lambda>d. label d \<noteq> '''')
                 (filter (\<lambda>d. kind d = targetKind) devices)))"

subsection \<open>The resolver\<close>

text \<open>
  A status that comes back from the query is returned when it is truthy: a string
  other than the empty one. Every \<^verbatim>\<open>break\<close> of the \<^verbatim>\<open>switch\<close> leads to the last
  line, \<open>fallthrough\<close>.
\<close>

definition getPermissionAsync ::
  "PermissionStatus \<Rightarrow> host \<Rightarrow> string \<Rightarrow> bool \<Rightarrow> PermissionInfo promise" where
  "getPermissionAsync ps h permission shouldAsk =
     (let fallthrough = Inr \<lparr>status = UNDETERMINED ps, expires = ''never''\<rparr> in
      if permission = ''userFacingNotifications'' \<or> permission = ''notifications'' then
        (let native =
           (case Notification (window h) of
              None \<Rightarrow> fallthrough
            | Some notification \<Rightarrow>
                (case requestPermission notification of
                   None \<Rightarrow> fallthrough
                 | Some request \<Rightarrow>
                     (case (if shouldAsk then request
                            else Inr (Notification_permission notification)) of
                        Inl e \<Rightarrow> Inl e
                      | Inr None \<Rightarrow>
                          Inr \<lparr>status = UNDETERMINED ps, expires = ''never''\<rparr>
                      | Inr (Some s) \<Rightarrow>
                          if s = '''' \<or> s = ''default''
                          then Inr \<lparr>status = UNDETERMINED ps, expires = ''never''\<rparr>
                          else Inr \<lparr>status = s, expires = ''never''\<rparr>)))
         in if shouldAsk then native
            else (case getPermissionWithQueryAsync ps h ''notifications'' of
                    Inl e \<Rightarrow> Inl e
                  | Inr None \<Rightarrow> native
                  | Inr (Some s) \<Rightarrow>
                      if s = '''' then native
                      else Inr \<lparr>status = s, expires = ''never''\<rparr>))
      else if permission = ''location'' then
        (case getPermissionWithQueryAsync ps h ''geolocation'' of
           Inl e \<Rightarrow> Inl e
         | Inr maybeStatus \<Rightarrow>
             (case (case maybeStatus of
                      None \<Rightarrow> None
                    | Some s \<Rightarrow> if s = '''' then None else Some s) of
                Some s \<Rightarrow>
                  if s = UNDETERMINED ps \<and> shouldAsk
                  then askForLocationPermissionAsync ps h
                  else Inr \<lparr>status = s, expires = ''never''\<rparr>
              | None \<Rightarrow>
                  if shouldAsk then askForLocationPermissionAsync ps h
                  else fallthrough))
      else if permission = ''audioRecording'' then
        (case getPermissionWithQueryAsync ps h ''microphone'' of
           Inl e \<Rightarrow> Inl e
         | Inr maybeStatus \<Rightarrow>
             (case (case maybeStatus of
                      None \<Rightarrow> None
                    | Some s \<Rightarrow> if s = '''' then None else Some s) of
                Some s \<Rightarrow>
                  if s = UNDETERMINED ps \<and> shouldAsk
                  then askForMicrophonePermissionAsync ps h
                  else Inr \<lparr>status = s, expires = ''never''\<rparr>
              | None \<Rightarrow>
                  if shouldAsk then askForMicrophonePermissionAsync ps h
                  else (case getMediaMaybeGrantedAsync h ''audioinput'' of
                          Inl e \<Rightarrow> Inl e
                        | Inr maybeGranted \<Rightarrow>
                            if maybeGranted
                            then Inr \<lparr>status = GRANTED ps, expires = ''never''\<rparr>
                            else fallthrough)))
      else if permission = ''camera'' then
        (case getPermissionWithQueryAsync ps h ''camera'' of
           Inl e \<Rightarrow> Inl e
         | Inr maybeStatus \<Rightarrow>
             (case (case maybeStatus of
                      None \<Rightarrow> None
                    | Some s \<Rightarrow> if s = '''' then None else Some s) of
                Some s \<Rightarrow>
                  if s = UNDETERMINED ps \<and> shouldAsk
                  then askForCameraPermissionAsync ps h
                  else Inr \<lparr>status = s, expires = ''never''\<rparr>
              | None \<Rightarrow>
                  if shouldAsk then askForCameraPermissionAsync ps h
                  else (case getMediaMaybeGrantedAsync h ''videoinput'' of
                          Inl e \<Rightarrow> Inl e
                        | Inr maybeGranted \<Rightarrow>
                            if maybeGranted
                            then Inr \<lparr>status = GRANTED ps, expires = ''never''\<rparr>
                            else fallthrough)))
      else fallthrough)"

subsection \<open>Batches\<close>

text \<open>
  \<^verbatim>\<open>new Set(permissionTypes)\<close> is iterated in insertion order: each type once, at the
  place of its first occurrence.
\<close>

definition Set_add :: "'a list \<Rightarrow> 'a \<Rightarrow> 'a list" where
  "Set_add s x = (if x \<in> set s then s else s @ [x])"

definition new_Set :: "'a list \<Rightarrow> 'a list" where
  "new_Set xs = foldl Set_add [] xs"

text \<open>
  \<^verbatim>\<open>results[permissionType] = info\<close>, on the plain object \<^verbatim>\<open>results\<close>. A
  PermissionMap holds the properties of the object itself. The assignment adds or
  replaces one, except under the key \<^verbatim>\<open>__proto__\<close>: there it reaches the setter that
  the object inherits from \<^verbatim>\<open>Object.prototype\<close>, which makes \<^verbatim>\<open>info\<close> the prototype of
  \<^verbatim>\<open>results\<close> and adds no property.
\<close>

definition set_property :: "PermissionMap \<Rightarrow> string \<Rightarrow> PermissionInfo \<Rightarrow> PermissionMap" where
  "set_property results key info =
     (if key = ''__proto__'' then results else results(key \<mapsto> info))"

text \<open>
  The loop of \<^verbatim>\<open>getAsync\<close> and \<^verbatim>\<open>askAsync\<close>, which differ in the flag only: the first
  resolution that rejects ends the batch with its error. Next to the way the batch
  settles, the loop gives the types for which it has called \<^verbatim>\<open>getPermissionAsync\<close>,
  in the order of the calls.
\<close>

fun resolve_each ::
  "PermissionStatus \<Rightarrow> host \<Rightarrow> bool \<Rightarrow> string list \<Rightarrow> PermissionMap \<Rightarrow>
     string list \<times> PermissionMap promise"
  where
  "resolve_each ps h shouldAsk [] results = ([], Inr results)"
| "resolve_each ps h shouldAsk (permissionType # rest) results =
     (case getPermissionAsync ps h permissionType shouldAsk of
        Inl e \<Rightarrow> ([permissionType], Inl e)
      | Inr info \<Rightarrow>
          (case resolve_each ps h shouldAsk rest (set_property results permissionType info) of
             (calls, settled) \<Rightarrow> (permissionType # calls, settled)))"

definition getAsync :: "PermissionStatus \<Rightarrow> host \<Rightarrow> string list \<Rightarrow> PermissionMap promise" where
  "getAsync ps h permissionTypes =
     snd (resolve_each ps h False (new_Set permissionTypes) Map.empty)"

definition askAsync :: "PermissionStatus \<Rightarrow> host \<Rightarrow> string list \<Rightarrow> PermissionMap promise" where
  "askAsync ps h permissionTypes =
     snd (resolve_each ps h True (new_Set permissionTypes) Map.empty)"

text \<open>The calls to \<^verbatim>\<open>getPermissionAsync\<close> that a batch makes.\<close>

definition getAsync_calls :: "PermissionStatus \<Rightarrow> host \<Rightarrow> string list \<Rightarrow> string list" where
  "getAsync_calls ps h permissionTypes =
     fst (resolve_each ps h False (new_Set permissionTypes) Map.empty)"

definition askAsync_calls :: "PermissionStatus \<Rightarrow> host \<Rightarrow> string list \<Rightarrow> string list" where
  "askAsync_calls ps h permissionTypes =
     fst (resolve_each ps h True (new_Set permissionTypes) Map.empty)"

subsection \<open>Hosts used as examples\<close>

text \<open>
  One choice of member values for \<^verbatim>\<open>PermissionStatus\<close>, and a few browsers: one with
  no API at all, and variations of it.
\<close>

definition web_statuses :: PermissionStatus where
  "web_statuses =
     \<lparr>GRANTED = ''granted'', DENIED = ''denied'', UNDETERMINED = ''undetermined''\<rparr>"

definition bare_navigator :: Navigator where
  "bare_navigator = \<lparr>permissions = None, mediaDevices = None, getUserMedia = None,
     webkitGetUserMedia = None, mozGetUserMedia = None, geolocation = None\<rparr>"

definition bare_window :: Window where
  "bare_window = \<lparr>Notification = None, MediaStreamTrack = None\<rparr>"

definition bare_host :: host where
  "bare_host = \<lparr>navigator = bare_navigator, window = bare_window\<rparr>"

text \<open>
  A permissions API that knows the names \<^verbatim>\<open>geolocation\<close> and \<^verbatim>\<open>notifications\<close> and
  rejects a query for any other name, as a browser does for a name that is not in its
  \<^verbatim>\<open>PermissionName\<close> enumeration.
\<close>

definition strict_query :: "string \<Rightarrow> string promise" where
  "strict_query nm =
     (if nm = ''geolocation'' \<or> nm = ''notifications'' then Inr ''prompt''
      else Inl (TypeError ''not a valid value for enumeration PermissionName''))"

definition strict_query_host :: host where
  "strict_query_host =
     bare_host\<lparr>navigator :=
       bare_navigator\<lparr>permissions := Some \<lparr>query = Some strict_query\<rparr>\<rparr>\<rparr>"

text \<open>A permissions API that reports \<^verbatim>\<open>granted\<close> for every name; no other API.\<close>

definition granted_query_host :: host where
  "granted_query_host =
     bare_host\<lparr>navigator :=
       bare_navigator\<lparr>permissions := Some \<lparr>query = Some (\<lambda>nm. Inr ''granted'')\<rparr>\<rparr>\<rparr>"

definition permission_denied :: js_error where
  "permission_denied =
     \<lparr>name = ''NotAllowedError'', message = ''Permission denied'', code = 0\<rparr>"

definition permission_dismissed :: js_error where
  "permission_dismissed =
     \<lparr>name = ''NotAllowedError'', message = ''Permission dismissed'', code = 0\<rparr>"

definition permission_unimplemented :: js_error where
  "permission_unimplemented =
     \<lparr>name = ''NotAllowedError'', message = ''Permission unimplemented'', code = 0\<rparr>"

definition user_denied_geolocation :: js_error where
  "user_denied_geolocation =
     \<lparr>name = ''PositionError'', message = ''User denied Geolocation'', code = 1\<rparr>"

definition position_unavailable :: js_error where
  "position_unavailable =
     \<lparr>name = ''PositionError'', message = ''Position unavailable'', code = 2\<rparr>"

text \<open>Only \<^verbatim>\<open>navigator.mediaDevices.getUserMedia\<close>, settling as given.\<close>

definition media_host :: "unit promise \<Rightarrow> host" where
  "media_host outcome =
     bare_host\<lparr>navigator := bare_navigator\<lparr>mediaDevices :=
       Some \<lparr>mediaDevices_getUserMedia = Some (\<lambda>constraints. outcome),
             mediaDevices_enumerateDevices = None\<rparr>\<rparr>\<rparr>"

text \<open>Only \<^verbatim>\<open>navigator.geolocation\<close>, calling back as given.\<close>

definition geolocation_host :: "js_error + unit \<Rightarrow> host" where
  "geolocation_host outcome =
     bare_host\<lparr>navigator := bare_navigator\<lparr>geolocation :=
       Some \<lparr>getCurrentPosition = outcome\<rparr>\<rparr>\<rparr>"

text \<open>Only \<^verbatim>\<open>navigator.mediaDevices.enumerateDevices\<close>, listing the given devices.\<close>

definition devices_host :: "MediaDeviceInfo list \<Rightarrow> host" where
  "devices_host devices =
     bare_host\<lparr>navigator := bare_navigator\<lparr>mediaDevices :=
       Some \<lparr>mediaDevices_getUserMedia = None,
             mediaDevices_enumerateDevices = Some (Inr (Some devices))\<rparr>\<rparr>\<rparr>"

definition microphone_and_camera :: "MediaDeviceInfo list" where
  "microphone_and_camera =
     [\<lparr>kind = ''audioinput'', label = ''Built-in Microphone''\<rparr>,
      \<lparr>kind = ''videoinput'', label = ''''\<rparr>]"

text \<open>
  Only \<^verbatim>\<open>Notification\<close>, with the given \<^verbatim>\<open>permission\<close> attribute and the given answer
  of \<^verbatim>\<open>requestPermission\<close>.
\<close>

definition notification_host :: "string option \<Rightarrow> (string option) promise \<Rightarrow> host" where
  "notification_host current answer =
     bare_host\<lparr>window := bare_window\<lparr>Notification :=
       Some \<lparr>Notification_permission = current, requestPermission = Some answer\<rparr>\<rparr>\<rparr>"

text \<open>
  A browser with every modern API, where nothing was decided yet and the user refuses
  the camera and the microphone, refuses notifications and shares the position.
\<close>

definition prompting_host :: host where
  "prompting_host =
     \<lparr>navigator =
        \<lparr>permissions = Some \<lparr>query = Some (\<lambda>nm. Inr ''prompt'')\<rparr>,
         mediaDevices =
           Some \<lparr>mediaDevices_getUserMedia = Some (\<lambda>constraints. Inl permission_denied),
                 mediaDevices_enumerateDevices = Some (Inr (Some []))\<rparr>,
         getUserMedia = None, webkitGetUserMedia = None, mozGetUserMedia = None,
         geolocation = Some \<lparr>getCurrentPosition = Inr ()\<rparr>\<rparr>,
      window =
        \<lparr>Notification =
           Some \<lparr>Notification_permission = Some ''default'',
                 requestPermission = Some (Inr (Some ''denied''))\<rparr>,
         MediaStreamTrack = None\<rparr>\<rparr>"

text \<open>
  A browser with every modern API whose permissions API answers \<^verbatim>\<open>prompt\<close> for the
  four names the module queries and rejects a query for any other name.
\<close>

definition selective_query :: "string \<Rightarrow> string promise" where
  "selective_query nm =
     (if nm = ''notifications'' \<or> nm = ''geolocation'' \<or> nm = ''microphone'' \<or>
         nm = ''camera''
      then Inr ''prompt''
      else Inl (TypeError ''not a valid value for enumeration PermissionName''))"

definition selective_query_host :: host where
  "selective_query_host =
     prompting_host\<lparr>navigator :=
       (navigator prompting_host)\<lparr>permissions := Some \<lparr>query = Some selective_query\<rparr>\<rparr>\<rparr>"

text \<open>
  A permissions API that rejects every query, with an error that names the queried
  permission; no other API.
\<close>

definition refusing_query :: "string \<Rightarrow> string promise" where
  "refusing_query nm = Inl (TypeError nm)"

definition refusing_query_host :: host where
  "refusing_query_host =
     bare_host\<lparr>navigator :=
       bare_navigator\<lparr>permissions := Some \<lparr>query = Some refusing_query\<rparr>\<rparr>\<rparr>"

lemmas example_defs = web_statuses_def bare_navigator_def bare_window_def bare_host_def
  strict_query_def strict_query_host_def TypeError_def granted_query_host_def
  permission_denied_def permission_dismissed_def permission_unimplemented_def
  user_denied_geolocation_def position_unavailable_def media_host_def
  geolocation_host_def devices_host_def microphone_and_camera_def notification_host_def
  prompting_host_def selective_query_def selective_query_host_def refusing_query_def
  refusing_query_host_def

section \<open>The resolver, one permission type at a time\<close>

lemma getPermissionAsync_notifications_case:
  assumes "permission = ''userFacingNotifications'' \<or> permission = ''notifications''"
  shows "getPermissionAsync ps h permission shouldAsk =
     (let native =
        (case Notification (window h) of
           None \<Rightarrow> Inr \<lparr>status = UNDETERMINED ps, expires = ''never''\<rparr>
         | Some notification \<Rightarrow>
             (case requestPermission notification of
                None \<Rightarrow> Inr \<lparr>status = UNDETERMINED ps, expires = ''never''\<rparr>
              | Some request \<Rightarrow>
                  (case (if shouldAsk then request
                         else Inr (Notification_permission notification)) of
                     Inl e \<Rightarrow> Inl e
                   | Inr None \<Rightarrow> Inr \<lparr>status = UNDETERMINED ps, expires = ''never''\<rparr>
                   | Inr (Some s) \<Rightarrow>
                       if s = [] \<or> s = ''default''
                       then Inr \<lparr>status = UNDETERMINED ps, expires = ''never''\<rparr>
                       else Inr \<lparr>status = s, expires = ''never''\<rparr>)))
      in if shouldAsk then native
         else (case getPermissionWithQueryAsync ps h ''notifications'' of
                 Inl e \<Rightarrow> Inl e
               | Inr None \<Rightarrow> native
               | Inr (Some s) \<Rightarrow>
                   if s = [] then native else Inr \<lparr>status = s, expires = ''never''\<rparr>))"
  using assms by (simp add: getPermissionAsync_def Let_def)

lemma getPermissionAsync_location:
  "getPermissionAsync ps h ''location'' shouldAsk =
     (case getPermissionWithQueryAsync ps h ''geolocation'' of
        Inl e \<Rightarrow> Inl e
      | Inr maybeStatus \<Rightarrow>
          (case (case maybeStatus of
                   None \<Rightarrow> None
                 | Some s \<Rightarrow> if s = [] then None else Some s) of
             Some s \<Rightarrow>
               if s = UNDETERMINED ps \<and> shouldAsk
               then askForLocationPermissionAsync ps h
               else Inr \<lparr>status = s, expires = ''never''\<rparr>
           | None \<Rightarrow>
               if shouldAsk then askForLocationPermissionAsync ps h
               else Inr \<lparr>status = UNDETERMINED ps, expires = ''never''\<rparr>))"
  by (simp add: getPermissionAsync_def)

lemma getPermissionAsync_audioRecording:
  "getPermissionAsync ps h ''audioRecording'' shouldAsk =
     (case getPermissionWithQueryAsync ps h ''microphone'' of
        Inl e \<Rightarrow> Inl e
      | Inr maybeStatus \<Rightarrow>
          (case (case maybeStatus of
                   None \<Rightarrow> None
                 | Some s \<Rightarrow> if s = [] then None else Some s) of
             Some s \<Rightarrow>
               if s = UNDETERMINED ps \<and> shouldAsk
               then askForMicrophonePermissionAsync ps h
               else Inr \<lparr>status = s, expires = ''never''\<rparr>
           | None \<Rightarrow>
               if shouldAsk then askForMicrophonePermissionAsync ps h
               else (case getMediaMaybeGrantedAsync h ''audioinput'' of
                       Inl e \<Rightarrow> Inl e
                     | Inr maybeGranted \<Rightarrow>
                         if maybeGranted
                         then Inr \<lparr>status = GRANTED ps, expires = ''never''\<rparr>
                         else Inr \<lparr>status = UNDETERMINED ps, expires = ''never''\<rparr>)))"
  by (simp add: getPermissionAsync_def)

lemma getPermissionAsync_camera:
  "getPermissionAsync ps h ''camera'' shouldAsk =
     (case getPermissionWithQueryAsync ps h ''camera'' of
        Inl e \<Rightarrow> Inl e
      | Inr maybeStatus \<Rightarrow>
          (case (case maybeStatus of
                   None \<Rightarrow> None
                 | Some s \<Rightarrow> if s = [] then None else Some s) of
             Some s \<Rightarrow>
               if s = UNDETERMINED ps \<and> shouldAsk
               then askForCameraPermissionAsync ps h
               else Inr \<lparr>status = s, expires = ''never''\<rparr>
           | None \<Rightarrow>
               if shouldAsk then askForCameraPermissionAsync ps h
               else (case getMediaMaybeGrantedAsync h ''videoinput'' of
                       Inl e \<Rightarrow> Inl e
                     | Inr maybeGranted \<Rightarrow>
                         if maybeGranted
                         then Inr \<lparr>status = GRANTED ps, expires = ''never''\<rparr>
                         else Inr \<lparr>status = UNDETERMINED ps, expires = ''never''\<rparr>)))"
  by (simp add: getPermissionAsync_def)

lemma getPermissionAsync_other:
  assumes "\<not> (permission = ''userFacingNotifications'' \<or> permission = ''notifications'')"
      and "permission \<noteq> ''location''" "permission \<noteq> ''audioRecording''"
      and "permission \<noteq> ''camera''"
  shows "getPermissionAsync ps h permission shouldAsk =
           Inr \<lparr>status = UNDETERMINED ps, expires = ''never''\<rparr>"
  using assms by (simp add: getPermissionAsync_def)

text \<open>With the flag set, a query that is unsupported or undetermined leads to the request.\<close>

lemma asks_when_undetermined:
  assumes "getPermissionWithQueryAsync ps h nm = Inr None \<or>
           getPermissionWithQueryAsync ps h nm = Inr (Some (UNDETERMINED ps))"
  shows "nm = ''geolocation'' \<Longrightarrow>
           getPermissionAsync ps h ''location'' True = askForLocationPermissionAsync ps h"
    and "nm = ''microphone'' \<Longrightarrow>
           getPermissionAsync ps h ''audioRecording'' True =
             askForMicrophonePermissionAsync ps h"
    and "nm = ''camera'' \<Longrightarrow>
           getPermissionAsync ps h ''camera'' True = askForCameraPermissionAsync ps h"
  using assms
  by (auto simp: getPermissionAsync_location getPermissionAsync_audioRecording
      getPermissionAsync_camera)

section \<open>Which calls can reject\<close>

lemma askForMedia_resolves: "\<exists>info. askForMediaPermissionAsync ps h options = Inr info"
  by (simp add: askForMediaPermissionAsync_def split: sum.split)

lemma askForMedia_never_rejects: "askForMediaPermissionAsync ps h options \<noteq> Inl e"
  using askForMedia_resolves [of ps h options] by auto

lemma askForLocation_rejects:
  "askForLocationPermissionAsync ps h = Inl e \<longleftrightarrow>
     geolocation (navigator h) = None \<and> e = TypeError ''navigator.geolocation is undefined''"
  by (auto simp: askForLocationPermissionAsync_def split: option.split sum.split)

lemma query_rejects:
  "getPermissionWithQueryAsync ps h nm = Inl e \<longleftrightarrow>
     (\<exists>p q. permissions (navigator h) = Some p \<and> query p = Some q \<and> q nm = Inl e)"
  by (auto simp: getPermissionWithQueryAsync_def split: option.split sum.split)

lemma enumerateDevices_rejects:
  "enumerateDevices h = Inl e \<longleftrightarrow>
     (case (case mediaDevices (navigator h) of
              None \<Rightarrow> None
            | Some md \<Rightarrow> mediaDevices_enumerateDevices md) of
        Some modern \<Rightarrow> modern = Inl e
      | None \<Rightarrow>
          (\<exists>track. MediaStreamTrack (window h) = Some track \<and>
             getSources track = Some (Inl e)))"
  by (auto simp: enumerateDevices_def split: option.split)

lemma getMediaMaybeGranted_rejects:
  "getMediaMaybeGrantedAsync h targetKind = Inl e \<longleftrightarrow> enumerateDevices h = Inl e"
  by (auto simp: getMediaMaybeGrantedAsync_def split: option.split sum.split)

lemma notifications_rejects:
  assumes "permission = ''userFacingNotifications'' \<or> permission = ''notifications''"
  shows "getPermissionAsync ps h permission shouldAsk = Inl e \<longleftrightarrow>
     (if shouldAsk
      then \<exists>notification. Notification (window h) = Some notification \<and>
             requestPermission notification = Some (Inl e)
      else getPermissionWithQueryAsync ps h ''notifications'' = Inl e)"
  unfolding getPermissionAsync_notifications_case [OF assms] Let_def
  by (auto split: option.split sum.split)

lemma location_rejects:
  "getPermissionAsync ps h ''location'' shouldAsk = Inl e \<longleftrightarrow>
     getPermissionWithQueryAsync ps h ''geolocation'' = Inl e \<or>
     (shouldAsk \<and>
      (getPermissionWithQueryAsync ps h ''geolocation'' = Inr None \<or>
       getPermissionWithQueryAsync ps h ''geolocation'' = Inr (Some '''') \<or>
       getPermissionWithQueryAsync ps h ''geolocation'' = Inr (Some (UNDETERMINED ps))) \<and>
      askForLocationPermissionAsync ps h = Inl e)"
  unfolding getPermissionAsync_location
  by (auto split: option.split sum.split)

lemma audioRecording_rejects:
  "getPermissionAsync ps h ''audioRecording'' shouldAsk = Inl e \<longleftrightarrow>
     getPermissionWithQueryAsync ps h ''microphone'' = Inl e \<or>
     (\<not> shouldAsk \<and>
      (getPermissionWithQueryAsync ps h ''microphone'' = Inr None \<or>
       getPermissionWithQueryAsync ps h ''microphone'' = Inr (Some '''')) \<and>
      enumerateDevices h = Inl e)"
  unfolding getPermissionAsync_audioRecording askForMicrophonePermissionAsync_def
    getMediaMaybeGranted_rejects [symmetric, of h e "''audioinput''"]
  using askForMedia_never_rejects [of ps h _ e]
  by (auto split: option.split sum.split)

lemma camera_rejects:
  "getPermissionAsync ps h ''camera'' shouldAsk = Inl e \<longleftrightarrow>
     getPermissionWithQueryAsync ps h ''camera'' = Inl e \<or>
     (\<not> shouldAsk \<and>
      (getPermissionWithQueryAsync ps h ''camera'' = Inr None \<or>
       getPermissionWithQueryAsync ps h ''camera'' = Inr (Some '''')) \<and>
      enumerateDevices h = Inl e)"
  unfolding getPermissionAsync_camera askForCameraPermissionAsync_def
    getMediaMaybeGranted_rejects [symmetric, of h e "''videoinput''"]
  using askForMedia_never_rejects [of ps h _ e]
  by (auto split: option.split sum.split)

lemma getPermissionAsync_expires:
  "getPermissionAsync ps h permission shouldAsk = Inr info \<Longrightarrow> expires info = ''never''"
  unfolding getPermissionAsync_def Let_def askForLocationPermissionAsync_def
    askForMicrophonePermissionAsync_def askForCameraPermissionAsync_def
    askForMediaPermissionAsync_def
  by (auto split: if_splits option.splits sum.splits)

section \<open>The batch loop\<close>

lemma set_foldl_Set_add: "set (foldl Set_add acc xs) = set acc \<union> set xs"
  by (induction xs arbitrary: acc) (auto simp: Set_add_def)

lemma set_new_Set: "set (new_Set xs) = set xs"
  by (simp add: new_Set_def set_foldl_Set_add)

lemma distinct_foldl_Set_add: "distinct acc \<Longrightarrow> distinct (foldl Set_add acc xs)"
  by (induction xs arbitrary: acc) (auto simp: Set_add_def)

lemma distinct_new_Set: "distinct (new_Set xs)"
  by (simp add: new_Set_def distinct_foldl_Set_add)

lemma new_Set_twice: "new_Set [x, x] = [x]" "new_Set [x] = [x]"
  by (simp_all add: new_Set_def Set_add_def)

text \<open>
  The loop resolves exactly when every type of the list resolves, and then the map
  holds, under each type of the list but \<^verbatim>\<open>__proto__\<close>, what that type resolves to.
\<close>

lemma resolve_each_Inr_aux:
  assumes sp: "\<And>r t i. set_property r t i = (if t = p then r else r(t \<mapsto> i))"
  shows "snd (resolve_each ps h ask ts r) = Inr m \<longleftrightarrow>
     (\<forall>t \<in> set ts. \<not> isl (getPermissionAsync ps h t ask)) \<and>
     m = (\<lambda>k. if k \<in> set ts \<and> k \<noteq> p
               then Some (projr (getPermissionAsync ps h k ask)) else r k)"
proof (induction ts arbitrary: r)
  case Nil
  then show ?case by auto
next
  case (Cons t ts)
  show ?case
  proof (cases "getPermissionAsync ps h t ask")
    case (Inl e)
    then show ?thesis by simp
  next
    case (Inr info)
    let ?r = "set_property r t info"
    have eq: "(\<lambda>k. if k \<in> set ts \<and> k \<noteq> p
                    then Some (projr (getPermissionAsync ps h k ask)) else ?r k) =
              (\<lambda>k. if k \<in> set (t # ts) \<and> k \<noteq> p
                    then Some (projr (getPermissionAsync ps h k ask)) else r k)"
      using Inr by (auto simp: fun_eq_iff sp)
    have "snd (resolve_each ps h ask (t # ts) r) = snd (resolve_each ps h ask ts ?r)"
      using Inr by (simp split: prod.split)
    also have "\<dots> = Inr m \<longleftrightarrow>
        (\<forall>t \<in> set ts. \<not> isl (getPermissionAsync ps h t ask)) \<and>
        m = (\<lambda>k. if k \<in> set ts \<and> k \<noteq> p
                  then Some (projr (getPermissionAsync ps h k ask)) else ?r k)"
      by (rule Cons.IH)
    also have "\<dots> \<longleftrightarrow>
        (\<forall>t \<in> set (t # ts). \<not> isl (getPermissionAsync ps h t ask)) \<and>
        m = (\<lambda>k. if k \<in> set (t # ts) \<and> k \<noteq> p
                  then Some (projr (getPermissionAsync ps h k ask)) else r k)"
      unfolding eq using Inr by simp
    finally show ?thesis .
  qed
qed

lemma resolve_each_Inr:
  "snd (resolve_each ps h ask ts r) = Inr m \<longleftrightarrow>
     (\<forall>t \<in> set ts. \<not> isl (getPermissionAsync ps h t ask)) \<and>
     m = (\<lambda>k. if k \<in> set ts \<and> k \<noteq> ''__proto__''
               then Some (projr (getPermissionAsync ps h k ask)) else r k)"
  by (rule resolve_each_Inr_aux) (simp only: set_property_def)

lemma resolve_all_Inr:
  "snd (resolve_each ps h ask (new_Set ts) Map.empty) = Inr m \<longleftrightarrow>
     (\<forall>t \<in> set ts. \<not> isl (getPermissionAsync ps h t ask)) \<and>
     m = (\<lambda>k. if k \<in> set ts \<and> k \<noteq> ''__proto__''
               then Some (projr (getPermissionAsync ps h k ask)) else None)"
  unfolding resolve_each_Inr set_new_Set ..

lemma resolve_all_set:
  assumes "set xs = set ys"
  shows "snd (resolve_each ps h ask (new_Set xs) Map.empty) = Inr m \<longleftrightarrow>
         snd (resolve_each ps h ask (new_Set ys) Map.empty) = Inr m"
  unfolding resolve_all_Inr assms ..

lemma dom_if_Some:
  "dom (\<lambda>k. if k \<in> A \<and> k \<noteq> p then Some (f k) else None) = A - {p}"
  by (auto simp: dom_def)

lemma resolve_all_dom:
  assumes "snd (resolve_each ps h ask (new_Set xs) Map.empty) = Inr m"
  shows "dom m = set xs - {''__proto__''}"
proof -
  from assms have "m = (\<lambda>k. if k \<in> set xs \<and> k \<noteq> ''__proto__''
                          then Some (projr (getPermissionAsync ps h k ask)) else None)"
    unfolding resolve_all_Inr by (rule conjunct2)
  then show ?thesis
    by (simp only: dom_if_Some)
qed

lemma resolve_all_resolves:
  "(\<exists>m. snd (resolve_each ps h ask (new_Set ts) Map.empty) = Inr m) \<longleftrightarrow>
   (\<forall>t \<in> set ts. \<exists>info. getPermissionAsync ps h t ask = Inr info)"
proof -
  have "\<not> isl x \<longleftrightarrow> (\<exists>info. x = Inr info)" for x :: "PermissionInfo promise"
    by (cases x) simp_all
  then show ?thesis
    unfolding resolve_all_Inr by simp
qed

lemma resolve_each_Cons_Inl:
  assumes "getPermissionAsync ps h t ask = Inl e"
  shows "resolve_each ps h ask (t # ts) r = ([t], Inl e)"
  using assms by simp

lemma resolve_each_Cons_Inr:
  assumes "getPermissionAsync ps h t ask = Inr info"
  shows "fst (resolve_each ps h ask (t # ts) r) =
           t # fst (resolve_each ps h ask ts (set_property r t info))"
    and "snd (resolve_each ps h ask (t # ts) r) =
           snd (resolve_each ps h ask ts (set_property r t info))"
  using assms by (simp_all split: prod.split)

text \<open>The calls are a prefix of the list: all of it when the loop resolves.\<close>

lemma resolve_each_calls_prefix:
  "\<exists>rest. ts = fst (resolve_each ps h ask ts r) @ rest"
proof (induction ts arbitrary: r)
  case Nil
  then show ?case by simp
next
  case (Cons t ts)
  show ?case
  proof (cases "getPermissionAsync ps h t ask")
    case (Inl e)
    then show ?thesis by (simp add: resolve_each_Cons_Inl)
  next
    case (Inr info)
    from Cons.IH [of "set_property r t info"] show ?thesis
      unfolding resolve_each_Cons_Inr(1) [OF Inr] by auto
  qed
qed

lemma resolve_each_calls_all:
  "snd (resolve_each ps h ask ts r) = Inr m \<Longrightarrow> fst (resolve_each ps h ask ts r) = ts"
proof (induction ts arbitrary: r)
  case Nil
  then show ?case by simp
next
  case (Cons t ts)
  show ?case
  proof (cases "getPermissionAsync ps h t ask")
    case (Inl e)
    with Cons.prems show ?thesis by (simp add: resolve_each_Cons_Inl)
  next
    case (Inr info)
    from Cons.prems have "snd (resolve_each ps h ask ts (set_property r t info)) = Inr m"
      unfolding resolve_each_Cons_Inr(2) [OF Inr] .
    from Cons.IH [OF this] show ?thesis
      unfolding resolve_each_Cons_Inr(1) [OF Inr] by simp
  qed
qed

text \<open>A loop that rejects does so with the error of the last call it has made.\<close>

lemma resolve_each_rejects:
  "snd (resolve_each ps h ask ts r) = Inl e \<Longrightarrow>
     fst (resolve_each ps h ask ts r) \<noteq> [] \<and>
     getPermissionAsync ps h (last (fst (resolve_each ps h ask ts r))) ask = Inl e"
proof (induction ts arbitrary: r)
  case Nil
  then show ?case by simp
next
  case (Cons t ts)
  show ?case
  proof (cases "getPermissionAsync ps h t ask")
    case (Inl e')
    with Cons.prems show ?thesis by (simp add: resolve_each_Cons_Inl)
  next
    case (Inr info)
    from Cons.prems have "snd (resolve_each ps h ask ts (set_property r t info)) = Inl e"
      unfolding resolve_each_Cons_Inr(2) [OF Inr] .
    from Cons.IH [OF this] show ?thesis
      unfolding resolve_each_Cons_Inr(1) [OF Inr] by simp
  qed
qed

lemma resolve_all_calls:
  "distinct (fst (resolve_each ps h ask (new_Set xs) Map.empty)) \<and>
   set (fst (resolve_each ps h ask (new_Set xs) Map.empty)) \<subseteq> set xs"
proof -
  obtain rest where "new_Set xs = fst (resolve_each ps h ask (new_Set xs) Map.empty) @ rest"
    using resolve_each_calls_prefix by blast
  then have "distinct (fst (resolve_each ps h ask (new_Set xs) Map.empty) @ rest)"
    and "set (fst (resolve_each ps h ask (new_Set xs) Map.empty) @ rest) = set xs"
    using distinct_new_Set [of xs] set_new_Set [of xs] by simp_all
  then show ?thesis by auto
qed

lemma resolve_each_expires:
  assumes "snd (resolve_each ps h ask ts r) = Inr m" and "m k = Some info"
      and "\<And>k info. r k = Some info \<Longrightarrow> expires info = ''never''"
  shows "expires info = ''never''"
  using assms
proof (induction ts arbitrary: r)
  case Nil
  then show ?case by simp
next
  case (Cons t ts)
  from Cons.prems(1) obtain i where i: "getPermissionAsync ps h t ask = Inr i"
    and rest: "snd (resolve_each ps h ask ts (set_property r t i)) = Inr m"
    by (auto split: sum.splits prod.splits)
  have "expires i = ''never''"
    using i by (rule getPermissionAsync_expires)
  then have "\<And>k info. (set_property r t i) k = Some info \<Longrightarrow> expires info = ''never''"
    using Cons.prems(3) by (auto simp: set_property_def split: if_splits)
  with Cons.IH [OF rest Cons.prems(2)] show ?case by blast
qed

text \<open>What the examples evaluate to.\<close>

lemma prompting_host_camera:
  "getPermissionAsync web_statuses prompting_host ''camera'' True =
     Inr \<lparr>status = ''denied'', expires = ''never''\<rparr>"
  "getPermissionAsync web_statuses prompting_host ''camera'' False =
     Inr \<lparr>status = ''undetermined'', expires = ''never''\<rparr>"
  by (simp_all add: getPermissionAsync_camera getPermissionWithQueryAsync_def
      askForCameraPermissionAsync_def askForMediaPermissionAsync_def p_getUserMedia_def
      example_defs)

lemma prompting_host_location:
  "getPermissionAsync web_statuses prompting_host ''location'' True =
     Inr \<lparr>status = ''granted'', expires = ''never''\<rparr>"
  "getPermissionAsync web_statuses prompting_host ''location'' False =
     Inr \<lparr>status = ''undetermined'', expires = ''never''\<rparr>"
  by (simp_all add: getPermissionAsync_location getPermissionWithQueryAsync_def
      askForLocationPermissionAsync_def example_defs)

lemma prompting_host_askAsync:
  "askAsync web_statuses prompting_host [''camera'', ''location'', ''camera''] =
     Inr [''camera'' \<mapsto> \<lparr>status = ''denied'', expires = ''never''\<rparr>,
          ''location'' \<mapsto> \<lparr>status = ''granted'', expires = ''never''\<rparr>]"
  by (simp add: askAsync_def new_Set_def Set_add_def set_property_def prompting_host_camera
      prompting_host_location)

lemma prompting_host_getAsync:
  "getAsync web_statuses prompting_host [''camera'', ''location'', ''camera''] =
     Inr [''camera'' \<mapsto> \<lparr>status = ''undetermined'', expires = ''never''\<rparr>,
          ''location'' \<mapsto> \<lparr>status = ''undetermined'', expires = ''never''\<rparr>]"
  by (simp add: getAsync_def new_Set_def Set_add_def set_property_def prompting_host_camera
      prompting_host_location)

lemma prompting_host_askAsync_calls:
  "askAsync_calls web_statuses prompting_host [''camera'', ''location'', ''camera''] =
     [''camera'', ''location'']"
  by (simp add: askAsync_calls_def new_Set_def Set_add_def set_property_def
      prompting_host_camera prompting_host_location)

section \<open>Properties\<close>

subsection \<open>Rejection\<close>

text \<open>
  C1, as the code has it. A resolution rejects exactly when a host call that it makes
  outside any \<^verbatim>\<open>try\<close> fails, and then with the error of that call:
  \<^item> the capability query (it rejects exactly when \<^verbatim>\<open>navigator.permissions.query\<close>
    exists and rejects for the queried name): for \<^verbatim>\<open>notifications\<close> and its alias
    when the flag is off, for \<^verbatim>\<open>location\<close>, \<^verbatim>\<open>audioRecording\<close> and \<^verbatim>\<open>camera\<close> always;
  \<^item> \<^verbatim>\<open>Notification.requestPermission\<close>: for \<^verbatim>\<open>notifications\<close> and its alias when the
    flag is on;
  \<^item> the enumeration of devices (\<^verbatim>\<open>mediaDevices.enumerateDevices\<close>, or
    \<^verbatim>\<open>MediaStreamTrack.getSources\<close> when the former is missing): for
    \<^verbatim>\<open>audioRecording\<close> and \<^verbatim>\<open>camera\<close> when the flag is off and the query gave no
    status;
  \<^item> the read of \<^verbatim>\<open>navigator.geolocation\<close> where there is none: for \<^verbatim>\<open>location\<close> when
    the flag is on and the query gave no status or \<^verbatim>\<open>UNDETERMINED\<close>.
  The media request never rejects, whatever \<^verbatim>\<open>getUserMedia\<close> does, nor does the
  position request where \<^verbatim>\<open>navigator.geolocation\<close> exists, nor the resolution of an
  unknown type. \<^verbatim>\<open>getAsync\<close> and \<^verbatim>\<open>askAsync\<close> return a map exactly when every
  requested type resolves.
\<close>

theorem rejects_exactly_with_an_unguarded_call:
  "(getPermissionWithQueryAsync ps h nm = Inl e \<longleftrightarrow>
      (\<exists>p q. permissions (navigator h) = Some p \<and> query p = Some q \<and> q nm = Inl e)) \<and>
   (enumerateDevices h = Inl e \<longleftrightarrow>
      (case (case mediaDevices (navigator h) of
               None \<Rightarrow> None
             | Some md \<Rightarrow> mediaDevices_enumerateDevices md) of
         Some modern \<Rightarrow> modern = Inl e
       | None \<Rightarrow>
           (\<exists>track. MediaStreamTrack (window h) = Some track \<and>
              getSources track = Some (Inl e)))) \<and>
   (askForLocationPermissionAsync ps h = Inl e \<longleftrightarrow>
      geolocation (navigator h) = None \<and>
      e = TypeError ''navigator.geolocation is undefined'') \<and>
   askForMediaPermissionAsync ps h options \<noteq> Inl e \<and>
   (permission = ''userFacingNotifications'' \<or> permission = ''notifications'' \<longrightarrow>
      (getPermissionAsync ps h permission shouldAsk = Inl e \<longleftrightarrow>
         (if shouldAsk
          then \<exists>notification. Notification (window h) = Some notification \<and>
                 requestPermission notification = Some (Inl e)
          else getPermissionWithQueryAsync ps h ''notifications'' = Inl e))) \<and>
   (getPermissionAsync ps h ''location'' shouldAsk = Inl e \<longleftrightarrow>
      getPermissionWithQueryAsync ps h ''geolocation'' = Inl e \<or>
      (shouldAsk \<and>
       (getPermissionWithQueryAsync ps h ''geolocation'' = Inr None \<or>
        getPermissionWithQueryAsync ps h ''geolocation'' = Inr (Some '''') \<or>
        getPermissionWithQueryAsync ps h ''geolocation'' = Inr (Some (UNDETERMINED ps))) \<and>
       askForLocationPermissionAsync ps h = Inl e)) \<and>
   (getPermissionAsync ps h ''audioRecording'' shouldAsk = Inl e \<longleftrightarrow>
      getPermissionWithQueryAsync ps h ''microphone'' = Inl e \<or>
      (\<not> shouldAsk \<and>
       (getPermissionWithQueryAsync ps h ''microphone'' = Inr None \<or>
        getPermissionWithQueryAsync ps h ''microphone'' = Inr (Some '''')) \<and>
       enumerateDevices h = Inl e)) \<and>
   (getPermissionAsync ps h ''camera'' shouldAsk = Inl e \<longleftrightarrow>
      getPermissionWithQueryAsync ps h ''camera'' = Inl e \<or>
      (\<not> shouldAsk \<and>
       (getPermissionWithQueryAsync ps h ''camera'' = Inr None \<or>
        getPermissionWithQueryAsync ps h ''camera'' = Inr (Some '''')) \<and>
       enumerateDevices h = Inl e)) \<and>
   (\<not> (permission = ''userFacingNotifications'' \<or> permission = ''notifications'' \<or>
        permission = ''location'' \<or> permission = ''audioRecording'' \<or>
        permission = ''camera'') \<longrightarrow>
      getPermissionAsync ps h permission shouldAsk \<noteq> Inl e) \<and>
   ((\<exists>results. getAsync ps h permissionTypes = Inr results) \<longleftrightarrow>
      (\<forall>t \<in> set permissionTypes. \<exists>info. getPermissionAsync ps h t False = Inr info)) \<and>
   ((\<exists>results. askAsync ps h permissionTypes = Inr results) \<longleftrightarrow>
      (\<forall>t \<in> set permissionTypes. \<exists>info. getPermissionAsync ps h t True = Inr info))"
proof -
  have other:
    "\<not> (permission = ''userFacingNotifications'' \<or> permission = ''notifications'' \<or>
         permission = ''location'' \<or> permission = ''audioRecording'' \<or>
         permission = ''camera'') \<longrightarrow>
     getPermissionAsync ps h permission shouldAsk \<noteq> Inl e"
    by (simp add: getPermissionAsync_def)
  have notif:
    "permission = ''userFacingNotifications'' \<or> permission = ''notifications'' \<longrightarrow>
       (getPermissionAsync ps h permission shouldAsk = Inl e \<longleftrightarrow>
          (if shouldAsk
           then \<exists>notification. Notification (window h) = Some notification \<and>
                  requestPermission notification = Some (Inl e)
           else getPermissionWithQueryAsync ps h ''notifications'' = Inl e))"
    using notifications_rejects [of permission ps h shouldAsk e] by blast
  show ?thesis
    unfolding getAsync_def askAsync_def
    by (intro conjI query_rejects enumerateDevices_rejects askForLocation_rejects
        askForMedia_never_rejects notif location_rejects audioRecording_rejects
        camera_rejects other resolve_all_resolves)
qed

text \<open>
  The theorem on a browser whose permissions API answers for the four names that the
  module queries and rejects any other name: no resolution rejects there. And where the
  permissions API rejects every query, asking for the location rejects with the error
  of the query.
\<close>

theorem rejects_exactly_with_an_unguarded_call_witness:
  "(\<forall>e. getPermissionAsync web_statuses selective_query_host ''camera'' False \<noteq> Inl e) \<and>
   (\<forall>e. getPermissionAsync web_statuses selective_query_host ''audioRecording'' True \<noteq> Inl e) \<and>
   (\<forall>e. getPermissionAsync web_statuses selective_query_host ''location'' True \<noteq> Inl e) \<and>
   (\<forall>e. getPermissionAsync web_statuses selective_query_host ''notifications'' True \<noteq> Inl e) \<and>
   (\<forall>e. getPermissionAsync web_statuses selective_query_host ''notifications'' False \<noteq> Inl e) \<and>
   (\<forall>e. getPermissionAsync web_statuses bare_host ''camera'' True \<noteq> Inl e) \<and>
   (\<forall>e. getPermissionAsync web_statuses refusing_query_host ''contacts'' True \<noteq> Inl e) \<and>
   (\<exists>results. getAsync web_statuses selective_query_host [''camera'', ''location''] =
      Inr results) \<and>
   getPermissionAsync web_statuses refusing_query_host ''location'' True =
     Inl (TypeError ''geolocation'')"
proof -
  note t = rejects_exactly_with_an_unguarded_call
  have camera:
    "getPermissionAsync web_statuses selective_query_host ''camera'' False \<noteq> Inl e" for e
    using t [where ps = web_statuses and h = selective_query_host and nm = "''camera''"
        and e = e and shouldAsk = False]
    by (simp add: example_defs)
  have microphone:
    "getPermissionAsync web_statuses selective_query_host ''audioRecording'' True \<noteq> Inl e"
    for e
    using t [where ps = web_statuses and h = selective_query_host
        and nm = "''microphone''" and e = e and shouldAsk = True]
    by (simp add: example_defs)
  have location:
    "getPermissionAsync web_statuses selective_query_host ''location'' True \<noteq> Inl e" for e
    using t [where ps = web_statuses and h = selective_query_host
        and nm = "''geolocation''" and e = e and shouldAsk = True]
    by (simp add: example_defs)
  have asking:
    "getPermissionAsync web_statuses selective_query_host ''notifications'' True \<noteq> Inl e"
    for e
    using t [where ps = web_statuses and h = selective_query_host
        and nm = "''notifications''" and e = e and shouldAsk = True
        and permission = "''notifications''"]
    by (simp add: example_defs)
  have reading:
    "getPermissionAsync web_statuses selective_query_host ''notifications'' False \<noteq> Inl e"
    for e
    using t [where ps = web_statuses and h = selective_query_host
        and nm = "''notifications''" and e = e and shouldAsk = False
        and permission = "''notifications''"]
    by (simp add: example_defs)
  have bare: "getPermissionAsync web_statuses bare_host ''camera'' True \<noteq> Inl e" for e
    using t [where ps = web_statuses and h = bare_host and nm = "''camera''"
        and e = e and shouldAsk = True]
    by (simp add: example_defs)
  have refused:
    "getPermissionAsync web_statuses refusing_query_host ''location'' True =
       Inl (TypeError ''geolocation'')"
    using t [where ps = web_statuses and h = refusing_query_host
        and nm = "''geolocation''" and e = "TypeError ''geolocation''" and shouldAsk = True]
    by (simp add: example_defs)
  have unknown:
    "getPermissionAsync web_statuses refusing_query_host ''contacts'' True \<noteq> Inl e" for e
    using t [where ps = web_statuses and h = refusing_query_host
        and permission = "''contacts''" and e = e and shouldAsk = True]
    by simp
  have each:
    "\<forall>t \<in> set [''camera'', ''location''].
       \<exists>info. getPermissionAsync web_statuses selective_query_host t False = Inr info"
    by (simp add: getPermissionAsync_camera getPermissionAsync_location
        getPermissionWithQueryAsync_def example_defs)
  have batch:
    "\<exists>results. getAsync web_statuses selective_query_host [''camera'', ''location''] =
       Inr results"
    using each
    by (rule t [where ps = web_statuses and h = selective_query_host
          and permissionTypes = "[''camera'', ''location'']",
          THEN conjunct2, THEN conjunct2, THEN conjunct2, THEN conjunct2, THEN conjunct2,
          THEN conjunct2, THEN conjunct2, THEN conjunct2, THEN conjunct2, THEN conjunct1,
          THEN iffD2])
  show ?thesis
    by (intro conjI allI camera microphone location asking reading bare unknown batch
        refused)
qed

text \<open>
  C1 as the specification states it fails: where the permissions API rejects the query
  for \<^verbatim>\<open>camera\<close>, \<^verbatim>\<open>getPermissionAsync('camera', false)\<close> rejects with the error of
  the query.
\<close>

theorem rejected_query_rejects_resolution:
  "getPermissionAsync web_statuses strict_query_host ''camera'' False =
     Inl (TypeError ''not a valid value for enumeration PermissionName'')"
  by (simp add: getPermissionAsync_camera getPermissionWithQueryAsync_def example_defs)

subsection \<open>A granted query\<close>

lemma query_granted:
  assumes "permissions (navigator h) = Some p" and "query p = Some q"
      and "q nm = Inr ''granted''"
  shows "getPermissionWithQueryAsync ps h nm = Inr (Some (GRANTED ps))"
  using assms by (simp add: getPermissionWithQueryAsync_def)

text \<open>
  C2, as the code has it. The types \<^verbatim>\<open>location\<close>, \<^verbatim>\<open>audioRecording\<close> and \<^verbatim>\<open>camera\<close>
  query \<^verbatim>\<open>geolocation\<close>, \<^verbatim>\<open>microphone\<close> and \<^verbatim>\<open>camera\<close> whatever the flag;
  \<^verbatim>\<open>notifications\<close> and \<^verbatim>\<open>userFacingNotifications\<close> query \<^verbatim>\<open>notifications\<close> only when
  the flag is off. In these cases, when the query reports \<^verbatim>\<open>granted\<close> the status is
  \<^verbatim>\<open>GRANTED\<close>. The enum member \<^verbatim>\<open>GRANTED\<close> has to be a non-empty string (the code
  tests the status for truthiness) other than \<^verbatim>\<open>UNDETERMINED\<close>.
\<close>

theorem query_granted_gives_GRANTED:
  assumes api: "permissions (navigator h) = Some p" "query p = Some q"
      and enum: "GRANTED ps \<noteq> ''''" "GRANTED ps \<noteq> UNDETERMINED ps"
      and queried:
        "(permission = ''location'' \<and> nm = ''geolocation'') \<or>
         (permission = ''audioRecording'' \<and> nm = ''microphone'') \<or>
         (permission = ''camera'' \<and> nm = ''camera'') \<or>
         ((permission = ''userFacingNotifications'' \<or> permission = ''notifications'') \<and>
          nm = ''notifications'' \<and> shouldAsk = False)"
      and granted: "q nm = Inr ''granted''"
  shows "getPermissionAsync ps h permission shouldAsk =
           Inr \<lparr>status = GRANTED ps, expires = ''never''\<rparr>"
proof -
  note g = query_granted [OF api, of _ ps]
  from queried show ?thesis
  proof (elim disjE conjE)
    assume "permission = ''location''" "nm = ''geolocation''"
    with granted enum show ?thesis
      by (simp add: getPermissionAsync_location g)
  next
    assume "permission = ''audioRecording''" "nm = ''microphone''"
    with granted enum show ?thesis
      by (simp add: getPermissionAsync_audioRecording g)
  next
    assume "permission = ''camera''" "nm = ''camera''"
    with granted enum show ?thesis
      by (simp add: getPermissionAsync_camera g)
  next
    assume "permission = ''userFacingNotifications''" "nm = ''notifications''"
      "shouldAsk = False"
    with granted enum show ?thesis
      by (simp add: getPermissionAsync_notifications_case g)
  next
    assume "permission = ''notifications''" "nm = ''notifications''"
      "shouldAsk = False"
    with granted enum show ?thesis
      by (simp add: getPermissionAsync_notifications_case g)
  qed
qed

text \<open>The theorem for the camera with the flag on and for notifications with it off.\<close>

theorem query_granted_gives_GRANTED_witness:
  "getPermissionAsync web_statuses granted_query_host ''camera'' True =
     Inr \<lparr>status = GRANTED web_statuses, expires = ''never''\<rparr> \<and>
   getPermissionAsync web_statuses granted_query_host ''notifications'' False =
     Inr \<lparr>status = GRANTED web_statuses, expires = ''never''\<rparr>"
  using query_granted_gives_GRANTED [of granted_query_host
      "\<lparr>query = Some (\<lambda>nm. Inr ''granted'')\<rparr>" "\<lambda>nm. Inr ''granted''" web_statuses
      "''camera''" "''camera''" True]
    query_granted_gives_GRANTED [of granted_query_host
      "\<lparr>query = Some (\<lambda>nm. Inr ''granted'')\<rparr>" "\<lambda>nm. Inr ''granted''" web_statuses
      "''notifications''" "''notifications''" False]
  by (simp add: example_defs)

text \<open>
  C2 as the specification states it fails for \<^verbatim>\<open>notifications\<close> with the flag on: the
  query, which would report \<^verbatim>\<open>granted\<close>, is not consulted, and without a
  \<^verbatim>\<open>Notification\<close> API the status is \<^verbatim>\<open>UNDETERMINED\<close>.
\<close>

theorem asking_for_notifications_skips_query:
  "getPermissionWithQueryAsync web_statuses granted_query_host ''notifications'' =
     Inr (Some (GRANTED web_statuses)) \<and>
   getPermissionAsync web_statuses granted_query_host ''notifications'' True =
     Inr \<lparr>status = UNDETERMINED web_statuses, expires = ''never''\<rparr> \<and>
   UNDETERMINED web_statuses \<noteq> GRANTED web_statuses"
  by (simp add: getPermissionAsync_def getPermissionWithQueryAsync_def example_defs)

subsection \<open>Unknown types\<close>

text \<open>
  C3. A permission type that is none of \<^verbatim>\<open>notifications\<close>,
  \<^verbatim>\<open>userFacingNotifications\<close>, \<^verbatim>\<open>location\<close>, \<^verbatim>\<open>audioRecording\<close> and \<^verbatim>\<open>camera\<close>
  resolves to the status \<^verbatim>\<open>UNDETERMINED\<close>, whatever the flag and the host.
\<close>

theorem unknown_type_undetermined:
  assumes "permission \<notin> {''notifications'', ''userFacingNotifications'', ''location'',
                          ''audioRecording'', ''camera''}"
  shows "getPermissionAsync ps h permission shouldAsk =
           Inr \<lparr>status = UNDETERMINED ps, expires = ''never''\<rparr>"
  using assms by (simp add: getPermissionAsync_def)

theorem unknown_type_undetermined_witness:
  "getPermissionAsync web_statuses prompting_host ''contacts'' True =
     Inr \<lparr>status = UNDETERMINED web_statuses, expires = ''never''\<rparr>"
  by (rule unknown_type_undetermined) simp

subsection \<open>Requests\<close>

text \<open>
  C4. A media request (\<^verbatim>\<open>askForMediaPermissionAsync\<close>, which the microphone and the
  camera requests call with their constraints) gives \<^verbatim>\<open>GRANTED\<close> when
  \<^verbatim>\<open>_getUserMedia\<close> resolves, \<^verbatim>\<open>UNDETERMINED\<close> when it fails with an error whose
  message is exactly \<^verbatim>\<open>Permission dismissed\<close>, and \<^verbatim>\<open>DENIED\<close> when it fails with any
  other message. The resolver makes this request when the flag is on and the query is
  unsupported or \<^verbatim>\<open>UNDETERMINED\<close>.
\<close>

theorem media_request_status:
  "(p_getUserMedia h options = Inr stream \<longrightarrow>
      askForMediaPermissionAsync ps h options =
        Inr \<lparr>status = GRANTED ps, expires = ''never''\<rparr>) \<and>
   (p_getUserMedia h options = Inl e \<and> message e = ''Permission dismissed'' \<longrightarrow>
      askForMediaPermissionAsync ps h options =
        Inr \<lparr>status = UNDETERMINED ps, expires = ''never''\<rparr>) \<and>
   (p_getUserMedia h options = Inl e \<and> message e \<noteq> ''Permission dismissed'' \<longrightarrow>
      askForMediaPermissionAsync ps h options =
        Inr \<lparr>status = DENIED ps, expires = ''never''\<rparr>) \<and>
   askForMicrophonePermissionAsync ps h =
     askForMediaPermissionAsync ps h \<lparr>audio = True, video = False\<rparr> \<and>
   askForCameraPermissionAsync ps h =
     askForMediaPermissionAsync ps h \<lparr>audio = False, video = True\<rparr> \<and>
   (getPermissionWithQueryAsync ps h ''microphone'' = Inr None \<or>
    getPermissionWithQueryAsync ps h ''microphone'' = Inr (Some (UNDETERMINED ps)) \<longrightarrow>
      getPermissionAsync ps h ''audioRecording'' True =
        askForMicrophonePermissionAsync ps h) \<and>
   (getPermissionWithQueryAsync ps h ''camera'' = Inr None \<or>
    getPermissionWithQueryAsync ps h ''camera'' = Inr (Some (UNDETERMINED ps)) \<longrightarrow>
      getPermissionAsync ps h ''camera'' True = askForCameraPermissionAsync ps h)"
  using asks_when_undetermined(2) [of ps h "''microphone''"]
    asks_when_undetermined(3) [of ps h "''camera''"]
  by (simp add: askForMediaPermissionAsync_def askForMicrophonePermissionAsync_def
      askForCameraPermissionAsync_def)

text \<open>
  The theorem on a granted, a dismissed and a refused request, and on a browser with
  no \<^verbatim>\<open>getUserMedia\<close> at all, where the request fails with
  \<^verbatim>\<open>Permission unimplemented\<close>.
\<close>

theorem media_request_status_witness:
  "askForMediaPermissionAsync web_statuses (media_host (Inr ()))
       \<lparr>audio = True, video = False\<rparr> =
     Inr \<lparr>status = ''granted'', expires = ''never''\<rparr> \<and>
   askForMediaPermissionAsync web_statuses (media_host (Inl permission_dismissed))
       \<lparr>audio = False, video = True\<rparr> =
     Inr \<lparr>status = ''undetermined'', expires = ''never''\<rparr> \<and>
   askForMediaPermissionAsync web_statuses (media_host (Inl permission_denied))
       \<lparr>audio = False, video = True\<rparr> =
     Inr \<lparr>status = ''denied'', expires = ''never''\<rparr> \<and>
   askForMediaPermissionAsync web_statuses bare_host \<lparr>audio = True, video = False\<rparr> =
     Inr \<lparr>status = ''denied'', expires = ''never''\<rparr> \<and>
   getPermissionAsync web_statuses (media_host (Inl permission_dismissed)) ''camera'' True =
     askForCameraPermissionAsync web_statuses (media_host (Inl permission_dismissed))"
proof -
  have granted: "p_getUserMedia (media_host (Inr ())) \<lparr>audio = True, video = False\<rparr> = Inr ()"
    by (simp add: p_getUserMedia_def example_defs)
  have dismissed:
    "p_getUserMedia (media_host (Inl permission_dismissed)) \<lparr>audio = False, video = True\<rparr> =
       Inl permission_dismissed \<and>
     message permission_dismissed = ''Permission dismissed''"
    by (simp add: p_getUserMedia_def example_defs)
  have denied:
    "p_getUserMedia (media_host (Inl permission_denied)) \<lparr>audio = False, video = True\<rparr> =
       Inl permission_denied \<and>
     message permission_denied \<noteq> ''Permission dismissed''"
    by (simp add: p_getUserMedia_def example_defs)
  have unimplemented:
    "p_getUserMedia bare_host \<lparr>audio = True, video = False\<rparr> =
       Inl permission_unimplemented \<and>
     message permission_unimplemented \<noteq> ''Permission dismissed''"
    by (simp add: p_getUserMedia_def example_defs)
  have unsupported:
    "getPermissionWithQueryAsync web_statuses (media_host (Inl permission_dismissed))
       ''camera'' = Inr None"
    by (simp add: getPermissionWithQueryAsync_def example_defs)
  show ?thesis
    using granted dismissed denied unimplemented unsupported
      media_request_status [of "media_host (Inr ())" "\<lparr>audio = True, video = False\<rparr>" "()"
        web_statuses]
      media_request_status [of "media_host (Inl permission_dismissed)"
        "\<lparr>audio = False, video = True\<rparr>" _ web_statuses permission_dismissed]
      media_request_status [of "media_host (Inl permission_denied)"
        "\<lparr>audio = False, video = True\<rparr>" _ web_statuses permission_denied]
      media_request_status [of bare_host "\<lparr>audio = True, video = False\<rparr>" _
        web_statuses permission_unimplemented]
    by (simp add: web_statuses_def)
qed

text \<open>
  C5. The position request (\<^verbatim>\<open>askForLocationPermissionAsync\<close>) gives \<^verbatim>\<open>GRANTED\<close>
  when the success callback is called, \<^verbatim>\<open>DENIED\<close> when the error callback is called
  with code 1, and \<^verbatim>\<open>UNDETERMINED\<close> when it is called with any other code. The
  resolver makes this request for \<^verbatim>\<open>location\<close> when the flag is on and the query is
  unsupported or \<^verbatim>\<open>UNDETERMINED\<close>.
\<close>

theorem location_request_status:
  assumes "geolocation (navigator h) = Some geo"
  shows "(getCurrentPosition geo = Inr position \<longrightarrow>
            askForLocationPermissionAsync ps h =
              Inr \<lparr>status = GRANTED ps, expires = ''never''\<rparr>) \<and>
         (getCurrentPosition geo = Inl e \<and> code e = 1 \<longrightarrow>
            askForLocationPermissionAsync ps h =
              Inr \<lparr>status = DENIED ps, expires = ''never''\<rparr>) \<and>
         (getCurrentPosition geo = Inl e \<and> code e \<noteq> 1 \<longrightarrow>
            askForLocationPermissionAsync ps h =
              Inr \<lparr>status = UNDETERMINED ps, expires = ''never''\<rparr>) \<and>
         (getPermissionWithQueryAsync ps h ''geolocation'' = Inr None \<or>
          getPermissionWithQueryAsync ps h ''geolocation'' = Inr (Some (UNDETERMINED ps)) \<longrightarrow>
            getPermissionAsync ps h ''location'' True = askForLocationPermissionAsync ps h)"
  using assms asks_when_undetermined(1) [of ps h "''geolocation''"]
  by (simp add: askForLocationPermissionAsync_def)

theorem location_request_status_witness:
  "askForLocationPermissionAsync web_statuses (geolocation_host (Inr ())) =
     Inr \<lparr>status = ''granted'', expires = ''never''\<rparr> \<and>
   askForLocationPermissionAsync web_statuses (geolocation_host (Inl user_denied_geolocation)) =
     Inr \<lparr>status = ''denied'', expires = ''never''\<rparr> \<and>
   askForLocationPermissionAsync web_statuses (geolocation_host (Inl position_unavailable)) =
     Inr \<lparr>status = ''undetermined'', expires = ''never''\<rparr> \<and>
   getPermissionAsync web_statuses (geolocation_host (Inl user_denied_geolocation))
       ''location'' True =
     askForLocationPermissionAsync web_statuses (geolocation_host (Inl user_denied_geolocation))"
proof -
  have unsupported:
    "getPermissionWithQueryAsync web_statuses (geolocation_host (Inl user_denied_geolocation))
       ''geolocation'' = Inr None"
    by (simp add: getPermissionWithQueryAsync_def example_defs)
  show ?thesis
    using unsupported
      location_request_status [of "geolocation_host (Inr ())"
        "\<lparr>getCurrentPosition = Inr ()\<rparr>" "()" web_statuses]
      location_request_status [of "geolocation_host (Inl user_denied_geolocation)"
        "\<lparr>getCurrentPosition = Inl user_denied_geolocation\<rparr>" _ web_statuses
        user_denied_geolocation]
      location_request_status [of "geolocation_host (Inl position_unavailable)"
        "\<lparr>getCurrentPosition = Inl position_unavailable\<rparr>" _ web_statuses
        position_unavailable]
    by (simp add: example_defs)
qed

subsection \<open>Batches\<close>

text \<open>
  C6, as the code has it. \<^verbatim>\<open>getAsync\<close>, and likewise \<^verbatim>\<open>askAsync\<close>, resolves each
  distinct requested type at most once, and exactly once when it returns a map; a type
  given twice is resolved once. The map that is returned depends on the set of the
  requested types only: two lists with the same set of types return the same map (one
  returns a map exactly when the other returns that map), and the map has exactly one
  entry for each distinct requested type other than \<^verbatim>\<open>__proto__\<close>. A batch that
  rejects does so with the error of the last resolution it has made.
\<close>

theorem batch_resolves_each_distinct_type_once:
  "distinct (getAsync_calls ps h xs) \<and> set (getAsync_calls ps h xs) \<subseteq> set xs \<and>
   distinct (askAsync_calls ps h xs) \<and> set (askAsync_calls ps h xs) \<subseteq> set xs \<and>
   (getAsync ps h xs = Inr results \<longrightarrow>
      set (getAsync_calls ps h xs) = set xs \<and> dom results = set xs - {''__proto__''}) \<and>
   (askAsync ps h xs = Inr results \<longrightarrow>
      set (askAsync_calls ps h xs) = set xs \<and> dom results = set xs - {''__proto__''}) \<and>
   (getAsync ps h xs = Inl e \<longrightarrow>
      getAsync_calls ps h xs \<noteq> [] \<and>
      getPermissionAsync ps h (last (getAsync_calls ps h xs)) False = Inl e) \<and>
   (askAsync ps h xs = Inl e \<longrightarrow>
      askAsync_calls ps h xs \<noteq> [] \<and>
      getPermissionAsync ps h (last (askAsync_calls ps h xs)) True = Inl e) \<and>
   getAsync ps h [x, x] = getAsync ps h [x] \<and>
   askAsync ps h [x, x] = askAsync ps h [x] \<and>
   getAsync_calls ps h [x, x] = [x] \<and>
   askAsync_calls ps h [x, x] = [x] \<and>
   (set xs = set ys \<longrightarrow>
      (getAsync ps h xs = Inr results \<longleftrightarrow> getAsync ps h ys = Inr results) \<and>
      (askAsync ps h xs = Inr results \<longleftrightarrow> askAsync ps h ys = Inr results))"
proof -
  have calls: "distinct (fst (resolve_each ps h ask (new_Set xs) Map.empty))"
    "set (fst (resolve_each ps h ask (new_Set xs) Map.empty)) \<subseteq> set xs" for ask
    using resolve_all_calls [of ps h ask xs] by simp_all
  have returned:
    "snd (resolve_each ps h ask (new_Set xs) Map.empty) = Inr results \<longrightarrow>
       set (fst (resolve_each ps h ask (new_Set xs) Map.empty)) = set xs \<and>
       dom results = set xs - {''__proto__''}" for ask
    using resolve_each_calls_all [of ps h ask "new_Set xs" Map.empty results]
      resolve_all_dom [of ps h ask xs results]
    by (simp add: set_new_Set)
  have rejected:
    "snd (resolve_each ps h ask (new_Set xs) Map.empty) = Inl e \<longrightarrow>
       fst (resolve_each ps h ask (new_Set xs) Map.empty) \<noteq> [] \<and>
       getPermissionAsync ps h (last (fst (resolve_each ps h ask (new_Set xs) Map.empty)))
         ask = Inl e" for ask
    using resolve_each_rejects [of ps h ask "new_Set xs" Map.empty e] by blast
  have twice: "fst (resolve_each ps h ask [x] Map.empty) = [x]" for ask
    by (simp split: sum.split prod.split)
  have same:
    "set xs = set ys \<longrightarrow>
       (snd (resolve_each ps h False (new_Set xs) Map.empty) = Inr results \<longleftrightarrow>
        snd (resolve_each ps h False (new_Set ys) Map.empty) = Inr results) \<and>
       (snd (resolve_each ps h True (new_Set xs) Map.empty) = Inr results \<longleftrightarrow>
        snd (resolve_each ps h True (new_Set ys) Map.empty) = Inr results)"
    using resolve_all_set [of xs ys ps h False results]
      resolve_all_set [of xs ys ps h True results]
    by blast
  show ?thesis
    unfolding getAsync_def askAsync_def getAsync_calls_def askAsync_calls_def new_Set_twice
    by (intro conjI calls returned rejected twice same refl)
qed

text \<open>
  The theorem on \<^verbatim>\<open>askAsync(['camera', 'location', 'camera'])\<close> and
  \<^verbatim>\<open>askAsync(['location', 'camera'])\<close>.
\<close>

theorem batch_resolves_each_distinct_type_once_witness:
  "askAsync web_statuses prompting_host [''camera'', ''location'', ''camera''] =
     Inr [''camera'' \<mapsto> \<lparr>status = ''denied'', expires = ''never''\<rparr>,
          ''location'' \<mapsto> \<lparr>status = ''granted'', expires = ''never''\<rparr>] \<and>
   askAsync web_statuses prompting_host [''location'', ''camera''] =
     Inr [''camera'' \<mapsto> \<lparr>status = ''denied'', expires = ''never''\<rparr>,
          ''location'' \<mapsto> \<lparr>status = ''granted'', expires = ''never''\<rparr>] \<and>
   dom [''camera'' \<mapsto> \<lparr>status = ''denied'', expires = ''never''\<rparr>,
        ''location'' \<mapsto> \<lparr>status = ''granted'', expires = ''never''\<rparr>] =
     set [''camera'', ''location'', ''camera''] - {''__proto__''} \<and>
   askAsync_calls web_statuses prompting_host [''camera'', ''location'', ''camera''] =
     [''camera'', ''location''] \<and>
   set (askAsync_calls web_statuses prompting_host [''camera'', ''location'', ''camera'']) =
     set [''camera'', ''location'', ''camera''] \<and>
   askAsync web_statuses refusing_query_host [''camera'', ''location'', ''camera''] =
     Inl (TypeError ''camera'') \<and>
   askAsync_calls web_statuses refusing_query_host [''camera'', ''location'', ''camera''] \<noteq>
     [] \<and>
   getPermissionAsync web_statuses refusing_query_host
       (last (askAsync_calls web_statuses refusing_query_host
          [''camera'', ''location'', ''camera''])) True =
     Inl (TypeError ''camera'')"
proof -
  let ?xs = "[''camera'', ''location'', ''camera'']" and ?ys = "[''location'', ''camera'']"
  let ?m = "[''camera'' \<mapsto> \<lparr>status = ''denied'', expires = ''never''\<rparr>,
             ''location'' \<mapsto> \<lparr>status = ''granted'', expires = ''never''\<rparr>]"
  note t = batch_resolves_each_distinct_type_once [where ps = web_statuses
      and h = prompting_host and xs = ?xs and ys = ?ys and results = ?m]
  have s: "set ?xs = set ?ys"
    by (simp add: insert_commute)
  have a: "askAsync web_statuses prompting_host ?xs = Inr ?m"
    by (rule prompting_host_askAsync)
  have b: "askAsync web_statuses prompting_host ?ys = Inr ?m"
    using t s a by blast
  have d: "set (askAsync_calls web_statuses prompting_host ?xs) = set ?xs \<and>
           dom ?m = set ?xs - {''__proto__''}"
    using t a by blast
  have r: "askAsync web_statuses refusing_query_host ?xs = Inl (TypeError ''camera'')"
    by (simp add: askAsync_def new_Set_def Set_add_def getPermissionAsync_camera
        getPermissionWithQueryAsync_def example_defs)
  have l: "askAsync_calls web_statuses refusing_query_host ?xs \<noteq> [] \<and>
           getPermissionAsync web_statuses refusing_query_host
             (last (askAsync_calls web_statuses refusing_query_host ?xs)) True =
           Inl (TypeError ''camera'')"
    using batch_resolves_each_distinct_type_once [where ps = web_statuses
        and h = refusing_query_host and xs = ?xs and e = "TypeError ''camera''"] r
    by blast
  show ?thesis
    using a b d r l prompting_host_askAsync_calls by blast
qed

text \<open>
  C6 as the specification states it fails in two ways. The type \<^verbatim>\<open>__proto__\<close> is
  resolved and gets no entry in the map. And where two resolutions reject, the order of
  the list decides with which error the batch rejects.
\<close>

theorem batch_outcome_depends_on_key_and_order:
  "getAsync web_statuses bare_host [''__proto__''] = Inr Map.empty \<and>
   getAsync_calls web_statuses bare_host [''__proto__''] = [''__proto__''] \<and>
   getAsync web_statuses refusing_query_host [''camera'', ''location''] =
     Inl (TypeError ''camera'') \<and>
   getAsync web_statuses refusing_query_host [''location'', ''camera''] =
     Inl (TypeError ''geolocation'') \<and>
   TypeError ''camera'' \<noteq> TypeError ''geolocation''"
  by (simp add: getAsync_def getAsync_calls_def new_Set_def Set_add_def set_property_def
      getPermissionAsync_camera getPermissionAsync_location getPermissionAsync_def
      getPermissionWithQueryAsync_def example_defs)

subsection \<open>Expiry\<close>

text \<open>
  C7. Every PermissionInfo that \<^verbatim>\<open>getPermissionAsync\<close> returns, and every value of a
  PermissionMap that \<^verbatim>\<open>getAsync\<close> or \<^verbatim>\<open>askAsync\<close> returns, has \<^verbatim>\<open>expires\<close> equal to
  the string \<^verbatim>\<open>never\<close>.
\<close>

theorem expires_never:
  "(getPermissionAsync ps h permission shouldAsk = Inr info \<longrightarrow> expires info = ''never'') \<and>
   (getAsync ps h permissionTypes = Inr results \<and> results k = Some info' \<longrightarrow>
      expires info' = ''never'') \<and>
   (askAsync ps h permissionTypes = Inr results' \<and> results' k' = Some info'' \<longrightarrow>
      expires info'' = ''never'')"
  unfolding getAsync_def askAsync_def
  using getPermissionAsync_expires [of ps h permission shouldAsk info]
    resolve_each_expires [of ps h False "new_Set permissionTypes" Map.empty results k info']
    resolve_each_expires [of ps h True "new_Set permissionTypes" Map.empty results' k' info'']
  by simp

theorem expires_never_witness:
  "expires (projr (getPermissionAsync web_statuses prompting_host ''camera'' True)) = ''never'' \<and>
   expires (the (projr (getAsync web_statuses prompting_host
       [''camera'', ''location'', ''camera'']) ''location'')) = ''never'' \<and>
   expires (the (projr (askAsync web_statuses prompting_host
       [''camera'', ''location'', ''camera'']) ''camera'')) = ''never''"
proof -
  let ?ts = "[''camera'', ''location'', ''camera'']"
  let ?i = "projr (getPermissionAsync web_statuses prompting_host ''camera'' True)"
  let ?g = "projr (getAsync web_statuses prompting_host ?ts)"
  let ?a = "projr (askAsync web_statuses prompting_host ?ts)"
  note t = expires_never [of web_statuses prompting_host "''camera''" True ?i ?ts
      ?g "''location''" "the (?g ''location'')" ?a "''camera''" "the (?a ''camera'')"]
  have 1: "getPermissionAsync web_statuses prompting_host ''camera'' True = Inr ?i"
    by (simp add: prompting_host_camera)
  have 2: "getAsync web_statuses prompting_host ?ts = Inr ?g \<and>
           ?g ''location'' = Some (the (?g ''location''))"
    by (simp add: prompting_host_getAsync)
  have 3: "askAsync web_statuses prompting_host ?ts = Inr ?a \<and>
           ?a ''camera'' = Some (the (?a ''camera''))"
    by (simp add: prompting_host_askAsync)
  show ?thesis
    by (intro conjI t [THEN conjunct1, THEN mp, OF 1]
        t [THEN conjunct2, THEN conjunct1, THEN mp, OF 2]
        t [THEN conjunct2, THEN conjunct2, THEN mp, OF 3])
qed

subsection \<open>The device fallback\<close>

text \<open>
  C8. For \<^verbatim>\<open>audioRecording\<close> and \<^verbatim>\<open>camera\<close> with the flag off, when the capability
  query is unsupported (\<^verbatim>\<open>getPermissionWithQueryAsync\<close> returns \<^verbatim>\<open>null\<close>) and the
  enumeration returns its devices (or \<^verbatim>\<open>null\<close>, when there is no enumeration API), the
  status is \<^verbatim>\<open>GRANTED\<close> when some enumerated device of the matching kind
  (\<^verbatim>\<open>audioinput\<close>, \<^verbatim>\<open>videoinput\<close>) has a non-empty label and \<^verbatim>\<open>UNDETERMINED\<close>
  otherwise; with distinct enum members, \<^verbatim>\<open>GRANTED\<close> is returned exactly in the
  first case.
\<close>

theorem media_fallback_enumerates_devices:
  assumes "(permission = ''audioRecording'' \<and> nm = ''microphone'' \<and>
            targetKind = ''audioinput'') \<or>
           (permission = ''camera'' \<and> nm = ''camera'' \<and> targetKind = ''videoinput'')"
      and "getPermissionWithQueryAsync ps h nm = Inr None"
      and "enumerateDevices h = Inr devices"
  shows "getPermissionAsync ps h permission False =
           Inr \<lparr>status =
                  (if \<exists>d \<in> set (case devices of None \<Rightarrow> [] | Some ds \<Rightarrow> ds).
                        kind d = targetKind \<and> label d \<noteq> ''''
                   then GRANTED ps else UNDETERMINED ps),
                expires = ''never''\<rparr> \<and>
         (GRANTED ps \<noteq> UNDETERMINED ps \<longrightarrow>
            (getPermissionAsync ps h permission False =
               Inr \<lparr>status = GRANTED ps, expires = ''never''\<rparr>) =
            (\<exists>d \<in> set (case devices of None \<Rightarrow> [] | Some ds \<Rightarrow> ds).
               kind d = targetKind \<and> label d \<noteq> ''''))"
proof -
  let ?labelled = "\<exists>d \<in> set (case devices of None \<Rightarrow> [] | Some ds \<Rightarrow> ds).
                     kind d = targetKind \<and> label d \<noteq> ''''"
  have eq: "getPermissionAsync ps h permission False =
              Inr \<lparr>status = (if ?labelled then GRANTED ps else UNDETERMINED ps),
                   expires = ''never''\<rparr>"
    using assms
    by (auto simp: getPermissionAsync_audioRecording getPermissionAsync_camera
        getMediaMaybeGrantedAsync_def list_ex_iff split: option.split)
  show ?thesis
    unfolding eq by simp
qed

text \<open>
  The theorem where the microphone has a label and the camera has none: the microphone
  counts as granted, the camera does not.
\<close>

theorem media_fallback_enumerates_devices_witness:
  "getPermissionAsync web_statuses (devices_host microphone_and_camera)
       ''audioRecording'' False =
     Inr \<lparr>status = ''granted'', expires = ''never''\<rparr> \<and>
   getPermissionAsync web_statuses (devices_host microphone_and_camera) ''camera'' False =
     Inr \<lparr>status = ''undetermined'', expires = ''never''\<rparr>"
proof -
  let ?h = "devices_host microphone_and_camera"
  have q: "getPermissionWithQueryAsync web_statuses ?h nm = Inr None" for nm
    by (simp add: getPermissionWithQueryAsync_def example_defs)
  have e: "enumerateDevices ?h = Inr (Some microphone_and_camera)"
    by (simp add: enumerateDevices_def example_defs)
  show ?thesis
    using
      media_fallback_enumerates_devices [of "''audioRecording''" "''microphone''"
        "''audioinput''" web_statuses ?h "Some microphone_and_camera", OF _ q e]
      media_fallback_enumerates_devices [of "''camera''" "''camera''"
        "''videoinput''" web_statuses ?h "Some microphone_and_camera", OF _ q e]
    by (simp add: web_statuses_def microphone_and_camera_def)
qed

subsection \<open>Notifications\<close>

text \<open>
  C9. For \<^verbatim>\<open>notifications\<close> (and its alias), when \<^verbatim>\<open>Notification.requestPermission\<close>
  exists, a native permission value that is absent or \<^verbatim>\<open>default\<close> gives
  \<^verbatim>\<open>UNDETERMINED\<close>: the value is the answer of \<^verbatim>\<open>requestPermission\<close> when the flag
  is on, and \<^verbatim>\<open>Notification.permission\<close>, read after a capability query that is
  unavailable, when the flag is off.
\<close>

theorem notifications_default_undetermined:
  assumes "permission = ''notifications'' \<or> permission = ''userFacingNotifications''"
      and "Notification (window h) = Some notification"
      and "requestPermission notification = Some request"
      and "if shouldAsk then request = Inr native
           else getPermissionWithQueryAsync ps h ''notifications'' = Inr None \<and>
                Notification_permission notification = native"
      and "native = None \<or> native = Some ''default''"
  shows "getPermissionAsync ps h permission shouldAsk =
           Inr \<lparr>status = UNDETERMINED ps, expires = ''never''\<rparr>"
proof -
  have p: "permission = ''userFacingNotifications'' \<or> permission = ''notifications''"
    using assms(1) by (elim disjE) simp_all
  show ?thesis
    unfolding getPermissionAsync_notifications_case [OF p] Let_def
    using assms(2-5) by (auto split: if_splits)
qed

text \<open>
  The theorem where \<^verbatim>\<open>Notification.permission\<close> is \<^verbatim>\<open>default\<close> and is read, and
  where \<^verbatim>\<open>requestPermission\<close> answers with no value.
\<close>

theorem notifications_default_undetermined_witness:
  "getPermissionAsync web_statuses (notification_host (Some ''default'') (Inr None))
       ''notifications'' False =
     Inr \<lparr>status = ''undetermined'', expires = ''never''\<rparr> \<and>
   getPermissionAsync web_statuses (notification_host (Some ''granted'') (Inr None))
       ''userFacingNotifications'' True =
     Inr \<lparr>status = ''undetermined'', expires = ''never''\<rparr>"
proof -
  have q: "getPermissionWithQueryAsync web_statuses (notification_host current answer)
             ''notifications'' = Inr None" for current answer
    by (simp add: getPermissionWithQueryAsync_def example_defs)
  show ?thesis
    using q
      notifications_default_undetermined [of "''notifications''"
        "notification_host (Some ''default'') (Inr None)"
        "\<lparr>Notification_permission = Some ''default'', requestPermission = Some (Inr None)\<rparr>"
        "Inr None" False "Some ''default''" web_statuses]
      notifications_default_undetermined [of "''userFacingNotifications''"
        "notification_host (Some ''granted'') (Inr None)"
        "\<lparr>Notification_permission = Some ''granted'', requestPermission = Some (Inr None)\<rparr>"
        "Inr None" True None web_statuses]
    by (simp add: example_defs)
qed

text \<open>
  C10. \<^verbatim>\<open>userFacingNotifications\<close> resolves to what \<^verbatim>\<open>notifications\<close> resolves to,
  for every flag and every host: the two labels share one branch of the \<^verbatim>\<open>switch\<close>.
\<close>

theorem userFacingNotifications_alias:
  "getPermissionAsync ps h ''userFacingNotifications'' shouldAsk =
   getPermissionAsync ps h ''notifications'' shouldAsk"
  by (simp add: getPermissionAsync_def)

end
